theory Spec2Isabelle
  imports Main "HOL-Library.Word"
begin

section \<open>GPUResourceState: per-resource or per-subresource state tracking\<close>

text \<open>
  A shallow embedding of the class template \<open>GPUResourceState<StateType, InvalidState>\<close> of
  \<open>Source/Engine/Graphics/GPUResourceState.h\<close>.

  \<^item> \<open>StateType\<close> is a type parameter of the template and stays a type variable \<open>'a\<close>; the
    template constant \<open>InvalidState\<close> and the preprocessor switch \<open>BUILD_DEBUG\<close> are
    parameters of every operation that reads them.
  \<^item> The member \<open>_resourceState\<close> is a bit-field, \<open>StateType _resourceState : 31\<close>: an
    assignment to it keeps 31 bits of the value, and a read gives back what the field
    holds. What that is depends on \<open>StateType\<close>, so it is a parameter too: \<open>field31 v\<close> is
    the value read from the field after \<open>v\<close> was assigned to it. Every assignment to
    \<open>_resourceState\<close> in the source is an application of \<open>field31\<close> in the model; the array
    \<open>Array<StateType>\<close> holds full values. Nothing is assumed of \<open>field31\<close>; its instances
    for a 32-bit unsigned and a 32-bit signed \<open>StateType\<close> are defined below.
  \<^item> \<open>uint32\<close> counts and indices are natural numbers and the \<open>int32\<close> index of
    \<open>SetSubresourceState\<close> is an integer: the class only compares them, it does no
    arithmetic on them. A count beyond the \<open>int32\<close> range of \<open>Array\<close> is outside the model.
  \<^item> \<open>ASSERT\<close> is fail-fast: a failed assertion is the result \<open>Inl AssertionFailed\<close>.
\<close>

datatype error = AssertionFailed

record 'a GPUResourceState =
  resourceState :: 'a
  allSubresourcesSame :: bool
  subresourceState :: "'a list"

subsection \<open>The bit-field of a 32-bit StateType\<close>

text \<open>
  For a \<open>StateType\<close> of 32 bits, a value is its bit pattern. A 31-bit bit-field of an
  unsigned type keeps the low 31 bits; a read extends them with a zero bit.
\<close>

definition field31_uint32 :: "32 word \<Rightarrow> 32 word" where
  "field31_uint32 v = take_bit 31 v"

text \<open>
  A 31-bit bit-field of a signed type keeps the low 31 bits; a read extends them with
  the sign, which is bit 30.
\<close>

definition field31_int32 :: "32 word \<Rightarrow> 32 word" where
  "field31_int32 v = signed_take_bit 30 v"

subsection \<open>The array of per-subresource states\<close>

text \<open>
  Modelled from the spec: \<open>Array<T>::Resize\<close> of \<open>Engine/Core/Collections/Array.h\<close>, which is
  not among the sources. The array is a list; \<open>Count()\<close> is its length, \<open>IsEmpty()\<close> and
  \<open>HasItems()\<close> compare it with the empty list. \<open>Resize(n)\<close> gives a sequence of exactly
  \<open>n\<close> entries, and \<open>Resize(0)\<close> the empty one. Entries that a resize adds are not
  initialised by the class: slot \<open>i\<close> holds \<open>fresh i\<close>, whatever the storage held before.
\<close>

definition Resize :: "nat \<Rightarrow> (nat \<Rightarrow> 'a) \<Rightarrow> 'a list \<Rightarrow> 'a list" where
  "Resize n fresh xs = take n xs @ map fresh [length xs ..< n]"

text \<open>
  Modelled from the spec: \<open>Array<T>::SetAll\<close> of \<open>Engine/Core/Collections/Array.h\<close>, which is
  not among the sources: every entry becomes the given value (the diagnostic fill).
\<close>

definition SetAll :: "'a \<Rightarrow> 'a list \<Rightarrow> 'a list" where
  "SetAll v xs = map (\<lambda>_. v) xs"

text \<open>
  Modelled from the spec: the write \<open>array[index] = value\<close> through \<open>Array<T>::operator[]\<close>
  of \<open>Engine/Core/Collections/Array.h\<close>, which is not among the sources: the index must
  lie within \<open>[0, Count())\<close>, and an access out of range is a failed precondition.
\<close>

definition Array_put :: "'a list \<Rightarrow> int \<Rightarrow> 'a \<Rightarrow> error + 'a list" where
  "Array_put xs index v =
     (if 0 \<le> index \<and> index < int (length xs) then Inr (xs[nat index := v])
      else Inl AssertionFailed)"

subsection \<open>The loops of the class\<close>

text \<open>
  The loop of \<open>CheckResourceState\<close>: \<open>for (i = 0; i < n; i++) if (a[i] != state) return false;\<close>
  followed by \<open>return true\<close>, started at index \<open>i\<close>.
\<close>

function check_loop :: "'a list \<Rightarrow> 'a \<Rightarrow> nat \<Rightarrow> bool" where
  "check_loop xs state i =
     (if i < length xs
      then (if xs ! i \<noteq> state then False else check_loop xs state (Suc i))
      else True)"
  by pat_completeness auto
termination
  by (relation "measure (\<lambda>(xs, state, i). length xs - i)") auto

declare check_loop.simps [simp del]

text \<open>
  The loop of \<open>SetResourceState\<close> (debug builds) and of the promotion in
  \<open>SetSubresourceState\<close>: \<open>for (i = 0; i < n; i++) a[i] = v;\<close>, started at index \<open>i\<close>.
\<close>

function fill_loop :: "'a list \<Rightarrow> 'a \<Rightarrow> nat \<Rightarrow> 'a list" where
  "fill_loop xs v i = (if i < length xs then fill_loop (xs[i := v]) v (Suc i) else xs)"
  by pat_completeness auto
termination
  by (relation "measure (\<lambda>(xs, v, i). length xs - i)") auto

declare fill_loop.simps [simp del]

subsection \<open>The operations\<close>

text \<open>The constructor: \<open>_resourceState(InvalidState), _allSubresourcesSame(true)\<close>, no array.\<close>

definition GPUResourceState_ctor :: "('a \<Rightarrow> 'a) \<Rightarrow> 'a \<Rightarrow> 'a GPUResourceState" where
  "GPUResourceState_ctor field31 InvalidState =
     \<lparr>resourceState = field31 InvalidState, allSubresourcesSame = True,
        subresourceState = []\<rparr>"

definition Initialize ::
  "('a \<Rightarrow> 'a) \<Rightarrow> bool \<Rightarrow> 'a \<Rightarrow> (nat \<Rightarrow> 'a) \<Rightarrow> nat \<Rightarrow> 'a \<Rightarrow> bool \<Rightarrow> 'a GPUResourceState
     \<Rightarrow> error + 'a GPUResourceState" where
  "Initialize field31 BUILD_DEBUG InvalidState fresh subresourceCount initialState
       usePerSubresourceTracking this =
     (if \<not> (subresourceState this = [] \<and> subresourceCount > 0) then Inl AssertionFailed
      else
        let t1 = (if usePerSubresourceTracking \<and> subresourceCount > 1
                  then this\<lparr>subresourceState :=
                         Resize subresourceCount fresh (subresourceState this)\<rparr>
                  else this);
            t2 = t1\<lparr>allSubresourcesSame := True\<rparr>;
            t3 = t2\<lparr>resourceState := field31 initialState\<rparr>
        in Inr (if BUILD_DEBUG
                then t3\<lparr>subresourceState := SetAll InvalidState (subresourceState t3)\<rparr>
                else t3))"

definition IsInitializated :: "'a \<Rightarrow> 'a GPUResourceState \<Rightarrow> bool" where
  "IsInitializated InvalidState this =
     (resourceState this \<noteq> InvalidState \<or> subresourceState this \<noteq> [])"

definition Release :: "('a \<Rightarrow> 'a) \<Rightarrow> 'a \<Rightarrow> 'a GPUResourceState \<Rightarrow> 'a GPUResourceState" where
  "Release field31 InvalidState this =
     (this\<lparr>resourceState := field31 InvalidState\<rparr>)
       \<lparr>subresourceState := Resize 0 (\<lambda>_. InvalidState) (subresourceState this)\<rparr>"

definition AreAllSubresourcesSame :: "'a GPUResourceState \<Rightarrow> bool" where
  "AreAllSubresourcesSame this = allSubresourcesSame this"

definition GetSubresourcesCount :: "'a GPUResourceState \<Rightarrow> int" where
  "GetSubresourcesCount this = int (length (subresourceState this))"

definition CheckResourceState :: "'a \<Rightarrow> 'a GPUResourceState \<Rightarrow> bool" where
  "CheckResourceState state this =
     (if allSubresourcesSame this then state = resourceState this
      else check_loop (subresourceState this) state 0)"

definition GetSubresourceState :: "nat \<Rightarrow> 'a GPUResourceState \<Rightarrow> error + 'a" where
  "GetSubresourceState subresourceIndex this =
     (if allSubresourcesSame this then Inr (resourceState this)
      else if \<not> (subresourceIndex \<ge> 0 \<and> subresourceIndex < length (subresourceState this))
      then Inl AssertionFailed
      else Inr (subresourceState this ! subresourceIndex))"

definition SetResourceState ::
  "('a \<Rightarrow> 'a) \<Rightarrow> bool \<Rightarrow> 'a \<Rightarrow> 'a \<Rightarrow> 'a GPUResourceState \<Rightarrow> 'a GPUResourceState" where
  "SetResourceState field31 BUILD_DEBUG InvalidState state this =
     (let t1 = this\<lparr>allSubresourcesSame := True\<rparr>;
          t2 = t1\<lparr>resourceState := field31 state\<rparr>
      in if BUILD_DEBUG
         then t2\<lparr>subresourceState := fill_loop (subresourceState t2) InvalidState 0\<rparr>
         else t2)"

text \<open>
  \<open>SetSubresourceState\<close> asserts only the upper bound of the index; the lower bound is
  left to the range check of the array at \<open>_subresourceState[subresourceIndex] = state\<close>,
  which a negative index other than \<open>-1\<close> reaches after the promotion.
\<close>

definition SetSubresourceState ::
  "('a \<Rightarrow> 'a) \<Rightarrow> bool \<Rightarrow> 'a \<Rightarrow> int \<Rightarrow> 'a \<Rightarrow> 'a GPUResourceState
     \<Rightarrow> error + 'a GPUResourceState" where
  "SetSubresourceState field31 BUILD_DEBUG InvalidState subresourceIndex state this =
     (if subresourceIndex = - 1 \<or> length (subresourceState this) \<le> 1
      then Inr (SetResourceState field31 BUILD_DEBUG InvalidState state this)
      else if \<not> (subresourceIndex < int (length (subresourceState this)))
      then Inl AssertionFailed
      else
        let t1 = (if allSubresourcesSame this
                  then
                    let p1 = this\<lparr>subresourceState :=
                               fill_loop (subresourceState this) (resourceState this) 0\<rparr>;
                        p2 = p1\<lparr>allSubresourcesSame := False\<rparr>
                    in if BUILD_DEBUG then p2\<lparr>resourceState := field31 InvalidState\<rparr>
                       else p2
                  else this)
        in case Array_put (subresourceState t1) subresourceIndex state of
             Inl e \<Rightarrow> Inl e
           | Inr a \<Rightarrow> Inr (t1\<lparr>subresourceState := a\<rparr>))"

subsection \<open>Sequences of calls, reachable trackers and observations\<close>

text \<open>
  The mutating operations as values, so that a sequence of calls can be run. A call of
  \<open>Initialize\<close> carries the contents of the storage it may allocate.
\<close>

datatype 'a call =
    Call_Initialize "nat \<Rightarrow> 'a" nat 'a bool
  | Call_Release
  | Call_SetResourceState 'a
  | Call_SetSubresourceState int 'a

fun invoke ::
  "('a \<Rightarrow> 'a) \<Rightarrow> bool \<Rightarrow> 'a \<Rightarrow> 'a call \<Rightarrow> 'a GPUResourceState
     \<Rightarrow> error + 'a GPUResourceState" where
  "invoke fld dbg invalid (Call_Initialize fresh n s0 per) t =
     Initialize fld dbg invalid fresh n s0 per t"
| "invoke fld dbg invalid Call_Release t = Inr (Release fld invalid t)"
| "invoke fld dbg invalid (Call_SetResourceState s) t =
     Inr (SetResourceState fld dbg invalid s t)"
| "invoke fld dbg invalid (Call_SetSubresourceState i s) t =
     SetSubresourceState fld dbg invalid i s t"

text \<open>A sequence of calls stops at the first failed assertion.\<close>

fun invoke_all ::
  "('a \<Rightarrow> 'a) \<Rightarrow> bool \<Rightarrow> 'a \<Rightarrow> 'a call list \<Rightarrow> 'a GPUResourceState
     \<Rightarrow> error + 'a GPUResourceState" where
  "invoke_all fld dbg invalid [] t = Inr t"
| "invoke_all fld dbg invalid (c # cs) t =
     (case invoke fld dbg invalid c t of
        Inl e \<Rightarrow> Inl e
      | Inr t' \<Rightarrow> invoke_all fld dbg invalid cs t')"

text \<open>Two calls are the same call when they differ at most in the contents of fresh storage.\<close>

fun same_call :: "'a call \<Rightarrow> 'a call \<Rightarrow> bool" where
  "same_call (Call_Initialize f n s0 per) (Call_Initialize g m r0 qer) =
     (n = m \<and> s0 = r0 \<and> per = qer)"
| "same_call Call_Release Call_Release = True"
| "same_call (Call_SetResourceState s) (Call_SetResourceState r) = (s = r)"
| "same_call (Call_SetSubresourceState i s) (Call_SetSubresourceState j r) = (i = j \<and> s = r)"
| "same_call _ _ = False"

text \<open>
  The trackers that the public operations can produce: the constructed tracker, and the
  result of any call that returns on a reachable tracker.
\<close>

inductive reachable :: "('a \<Rightarrow> 'a) \<Rightarrow> bool \<Rightarrow> 'a \<Rightarrow> 'a GPUResourceState \<Rightarrow> bool"
  for fld :: "'a \<Rightarrow> 'a" and dbg :: bool and invalid :: 'a where
  reachable_ctor: "reachable fld dbg invalid (GPUResourceState_ctor fld invalid)"
| reachable_call:
    "reachable fld dbg invalid t \<Longrightarrow> invoke fld dbg invalid c t = Inr t' \<Longrightarrow>
     reachable fld dbg invalid t'"

text \<open>The queries as values, and what a query answers on a tracker.\<close>

datatype 'a query =
    Q_IsInitializated
  | Q_AreAllSubresourcesSame
  | Q_GetSubresourcesCount
  | Q_CheckResourceState 'a
  | Q_GetSubresourceState nat

datatype 'a answer = A_bool bool | A_count int | A_state "error + 'a"

fun ask :: "'a \<Rightarrow> 'a query \<Rightarrow> 'a GPUResourceState \<Rightarrow> 'a answer" where
  "ask invalid Q_IsInitializated t = A_bool (IsInitializated invalid t)"
| "ask invalid Q_AreAllSubresourcesSame t = A_bool (AreAllSubresourcesSame t)"
| "ask invalid Q_GetSubresourcesCount t = A_count (GetSubresourcesCount t)"
| "ask invalid (Q_CheckResourceState s) t = A_bool (CheckResourceState s t)"
| "ask invalid (Q_GetSubresourceState i) t = A_state (GetSubresourceState i t)"

text \<open>What an observer sees who runs a sequence of calls and then asks one query.\<close>

definition observe ::
  "('a \<Rightarrow> 'a) \<Rightarrow> bool \<Rightarrow> 'a \<Rightarrow> 'a call list \<Rightarrow> 'a query \<Rightarrow> 'a GPUResourceState
     \<Rightarrow> error + 'a answer" where
  "observe fld dbg invalid cs q t =
     (case invoke_all fld dbg invalid cs t of
        Inl e \<Rightarrow> Inl e
      | Inr t' \<Rightarrow> Inr (ask invalid q t'))"

text \<open>
  Two trackers are alike when they agree on everything a query can read: the members
  \<open>_resourceState\<close> and \<open>_allSubresourcesSame\<close>, the length of the array and, when the array
  is the active representation, its contents. The contents of a dormant array may differ
  (in a release build they are whatever the fresh storage held).
\<close>

definition alike :: "'a GPUResourceState \<Rightarrow> 'a GPUResourceState \<Rightarrow> bool" where
  "alike a b \<longleftrightarrow>
     resourceState a = resourceState b
     \<and> allSubresourcesSame a = allSubresourcesSame b
     \<and> length (subresourceState a) = length (subresourceState b)
     \<and> (allSubresourcesSame a \<or> subresourceState a = subresourceState b)"

section \<open>Facts about the loops\<close>

lemma fill_loop_eq: "fill_loop xs v i = take i xs @ replicate (length xs - i) v"
proof (induction xs v i rule: fill_loop.induct)
  case (1 xs v i)
  show ?case
  proof (cases "i < length xs")
    case True
    then have "fill_loop xs v i = fill_loop (xs[i := v]) v (Suc i)"
      by (simp add: fill_loop.simps [of xs v i])
    also have "\<dots> = take (Suc i) (xs[i := v]) @ replicate (length xs - Suc i) v"
      using 1 True by simp
    also have "\<dots> = take i xs @ replicate (length xs - i) v"
      using True
      by (simp add: take_Suc_conv_app_nth replicate_app_Cons_same Suc_diff_Suc
               flip: replicate_Suc)
    finally show ?thesis .
  next
    case False
    then show ?thesis by (simp add: fill_loop.simps [of xs v i])
  qed
qed

lemma fill_loop_0: "fill_loop xs v 0 = replicate (length xs) v"
  by (simp add: fill_loop_eq)

lemma check_loop_iff: "check_loop xs s i \<longleftrightarrow> (\<forall>j. i \<le> j \<and> j < length xs \<longrightarrow> xs ! j = s)"
proof (induction xs s i rule: check_loop.induct)
  case (1 xs s i)
  show ?case
  proof (cases "i < length xs")
    case True
    show ?thesis
    proof (cases "xs ! i = s")
      case eq: True
      have "check_loop xs s i = check_loop xs s (Suc i)"
        using True eq by (simp add: check_loop.simps [of xs s i])
      also have "\<dots> \<longleftrightarrow> (\<forall>j. Suc i \<le> j \<and> j < length xs \<longrightarrow> xs ! j = s)"
        using 1 True eq by simp
      also have "\<dots> \<longleftrightarrow> (\<forall>j. i \<le> j \<and> j < length xs \<longrightarrow> xs ! j = s)"
        using eq by (metis Suc_leI le_eq_less_or_eq Suc_leD)
      finally show ?thesis .
    next
      case neq: False
      have "\<not> check_loop xs s i"
        using True neq by (simp add: check_loop.simps [of xs s i])
      moreover have "\<not> (\<forall>j. i \<le> j \<and> j < length xs \<longrightarrow> xs ! j = s)"
        using True neq by blast
      ultimately show ?thesis by simp
    qed
  next
    case False
    then have "check_loop xs s i"
      by (simp add: check_loop.simps [of xs s i])
    moreover have "\<forall>j. i \<le> j \<and> j < length xs \<longrightarrow> xs ! j = s"
      using False by auto
    ultimately show ?thesis by simp
  qed
qed

lemma check_loop_0: "check_loop xs s 0 \<longleftrightarrow> (\<forall>j<length xs. xs ! j = s)"
  by (simp add: check_loop_iff)


lemma length_fill_loop [simp]: "length (fill_loop xs v i) = length xs"
  by (simp add: fill_loop_eq)

section \<open>Facts about the array\<close>

lemma Resize_0 [simp]: "Resize 0 f xs = []"
  by (simp add: Resize_def)

lemma length_Resize_Nil [simp]: "length (Resize n f []) = n"
  by (simp add: Resize_def)

lemma length_SetAll [simp]: "length (SetAll v xs) = length xs"
  by (simp add: SetAll_def)

section \<open>An invariant of the reachable trackers\<close>




section \<open>Alike trackers cannot be told apart\<close>

lemma alike_ask: "alike a b \<Longrightarrow> ask invalid q a = ask invalid q b"
  by (cases q)
     (auto simp add: alike_def IsInitializated_def AreAllSubresourcesSame_def
        GetSubresourcesCount_def CheckResourceState_def GetSubresourceState_def)

lemma alike_Initialize:
  assumes "alike a b"
  shows "(\<exists>e. Initialize fld dbg invalid f n s0 per a = Inl e
              \<and> Initialize fld dbg invalid g n s0 per b = Inl e)
         \<or> (\<exists>a' b'. Initialize fld dbg invalid f n s0 per a = Inr a'
              \<and> Initialize fld dbg invalid g n s0 per b = Inr b' \<and> alike a' b')"
  using assms
  by (auto simp add: alike_def Initialize_def Let_def)

lemma alike_Release: "alike a b \<Longrightarrow> alike (Release fld invalid a) (Release fld invalid b)"
  by (simp add: alike_def Release_def)

lemma alike_SetResourceState:
  "alike a b \<Longrightarrow> alike (SetResourceState fld dbg invalid s a) (SetResourceState fld dbg invalid s b)"
  by (simp add: alike_def SetResourceState_def Let_def)

lemma alike_SetSubresourceState:
  assumes "alike a b"
  shows "(\<exists>e. SetSubresourceState fld dbg invalid k s a = Inl e
              \<and> SetSubresourceState fld dbg invalid k s b = Inl e)
         \<or> (\<exists>a' b'. SetSubresourceState fld dbg invalid k s a = Inr a'
              \<and> SetSubresourceState fld dbg invalid k s b = Inr b' \<and> alike a' b')"
  using assms
  by (auto simp add: alike_def SetSubresourceState_def SetResourceState_def Array_put_def
        Let_def fill_loop_0)

lemma alike_invoke:
  assumes "alike a b" and "same_call c d"
  shows "(\<exists>e. invoke fld dbg invalid c a = Inl e \<and> invoke fld dbg invalid d b = Inl e)
         \<or> (\<exists>a' b'. invoke fld dbg invalid c a = Inr a' \<and> invoke fld dbg invalid d b = Inr b'
              \<and> alike a' b')"
proof (cases c)
  case (Call_Initialize f n s0 per)
  then obtain g where d: "d = Call_Initialize g n s0 per"
    using assms(2) by (cases d) auto
  show ?thesis
    using alike_Initialize [OF assms(1), of fld dbg invalid f n s0 per g]
    by (simp add: Call_Initialize d)
next
  case Call_Release
  then have d: "d = Call_Release"
    using assms(2) by (cases d) auto
  show ?thesis
    using alike_Release [OF assms(1)] by (simp add: Call_Release d)
next
  case (Call_SetResourceState s)
  then have d: "d = Call_SetResourceState s"
    using assms(2) by (cases d) auto
  show ?thesis
    using alike_SetResourceState [OF assms(1)] by (simp add: Call_SetResourceState d)
next
  case (Call_SetSubresourceState k s)
  then have d: "d = Call_SetSubresourceState k s"
    using assms(2) by (cases d) auto
  show ?thesis
    using alike_SetSubresourceState [OF assms(1), of fld dbg invalid k s]
    by (simp add: Call_SetSubresourceState d)
qed

lemma alike_observe:
  "list_all2 same_call cs ds \<Longrightarrow> alike a b \<Longrightarrow>
   observe fld dbg invalid cs q a = observe fld dbg invalid ds q b"
proof (induction cs ds arbitrary: a b rule: list_all2_induct)
  case Nil
  then show ?case by (simp add: observe_def alike_ask)
next
  case (Cons c cs d ds)
  from alike_invoke [OF Cons.prems Cons.hyps(1), of fld dbg invalid]
  show ?case
  proof
    assume "\<exists>e. invoke fld dbg invalid c a = Inl e \<and> invoke fld dbg invalid d b = Inl e"
    then show ?thesis by (auto simp add: observe_def)
  next
    assume "\<exists>a' b'. invoke fld dbg invalid c a = Inr a' \<and> invoke fld dbg invalid d b = Inr b'
              \<and> alike a' b'"
    then obtain a' b' where s: "invoke fld dbg invalid c a = Inr a'"
      "invoke fld dbg invalid d b = Inr b'" "alike a' b'"
      by blast
    have "observe fld dbg invalid cs q a' = observe fld dbg invalid ds q b'"
      using Cons.IH [OF s(3)] .
    then show ?thesis using s(1,2) by (simp add: observe_def)
  qed
qed

lemma release_reinit_alike:
  assumes "0 < n"
  shows "\<exists>a b. Initialize fld dbg invalid f n s0 per (Release fld invalid t) = Inr a
           \<and> Initialize fld dbg invalid g n s0 per (GPUResourceState_ctor fld invalid) = Inr b
           \<and> alike a b"
  using assms
  by (simp add: Initialize_def Release_def GPUResourceState_ctor_def alike_def Let_def)

section \<open>Properties\<close>

subsection \<open>C1: promotion\<close>

text \<open>
  C1, as the code has it. Promotion. For every \<open>n > 1\<close>, initial state \<open>s0\<close> and index \<open>k\<close>
  with \<open>0 \<le> k < n\<close>: \<open>Initialize(n, s0, true)\<close>, on a tracker that meets its precondition
  (no array allocated: a constructed or released tracker), followed by
  \<open>SetSubresourceState(k, s1)\<close>, both return, and afterwards \<open>AreAllSubresourcesSame()\<close> is
  false, \<open>GetSubresourceState(k)\<close> is \<open>s1\<close>, and \<open>GetSubresourceState(i)\<close> for every other
  index \<open>i < n\<close> is the value that the 31-bit field \<open>_resourceState\<close> held after \<open>s0\<close> was
  assigned to it: \<open>s0\<close> itself whenever \<open>s0\<close> fits the field. This holds in debug and in
  release builds, whatever the fresh storage of the array held.
\<close>

theorem C1_promotion:
  assumes "1 < n" and "0 \<le> k" and "k < int n" and "subresourceState t0 = []"
  shows "\<exists>t1 t2. Initialize fld dbg invalid fresh n s0 True t0 = Inr t1
           \<and> SetSubresourceState fld dbg invalid k s1 t1 = Inr t2
           \<and> \<not> AreAllSubresourcesSame t2
           \<and> GetSubresourceState (nat k) t2 = Inr s1
           \<and> (\<forall>i. i < n \<and> i \<noteq> nat k \<longrightarrow> GetSubresourceState i t2 = Inr (fld s0))
           \<and> (fld s0 = s0 \<longrightarrow>
                (\<forall>i. i < n \<and> i \<noteq> nat k \<longrightarrow> GetSubresourceState i t2 = Inr s0))"
  using assms
  by (auto simp add: Initialize_def SetSubresourceState_def Array_put_def Let_def
        AreAllSubresourcesSame_def GetSubresourceState_def fill_loop_0)

text \<open>
  The witness is the scenario \<open>Initialize(4, 1, true)\<close>, \<open>SetSubresourceState(2, 2)\<close> for an
  unsigned 32-bit \<open>StateType\<close>; the value 1 fits the field.
\<close>

theorem C1_promotion_witness:
  "(1::nat) < 4 \<and> (0::int) \<le> 2 \<and> (2::int) < int 4
   \<and> subresourceState (GPUResourceState_ctor field31_uint32 0) = []
   \<and> field31_uint32 1 = 1
   \<and> (\<exists>t1 t2. Initialize field31_uint32 False 0 of_nat 4 1 True
                  (GPUResourceState_ctor field31_uint32 0) = Inr t1
          \<and> SetSubresourceState field31_uint32 False 0 2 2 t1 = Inr t2
          \<and> \<not> AreAllSubresourcesSame t2
          \<and> GetSubresourceState 0 t2 = Inr 1
          \<and> GetSubresourceState 1 t2 = Inr 1
          \<and> GetSubresourceState 2 t2 = Inr 2
          \<and> GetSubresourceState 3 t2 = Inr 1)"
proof -
  have h: "(1::nat) < 4" "(0::int) \<le> 2" "(2::int) < int 4"
    "subresourceState (GPUResourceState_ctor field31_uint32 0) = []"
    by (simp_all add: GPUResourceState_ctor_def)
  have f: "field31_uint32 1 = 1"
    by (simp add: field31_uint32_def)
  obtain t1 t2 where r:
    "Initialize field31_uint32 False 0 of_nat 4 1 True
       (GPUResourceState_ctor field31_uint32 0) = Inr t1"
    "SetSubresourceState field31_uint32 False 0 2 2 t1 = Inr t2"
    "\<not> AreAllSubresourcesSame t2"
    "GetSubresourceState (nat 2) t2 = Inr 2"
    "\<forall>i. i < 4 \<and> i \<noteq> nat 2 \<longrightarrow> GetSubresourceState i t2 = Inr (field31_uint32 1)"
    using C1_promotion [OF h, of field31_uint32 False 0 of_nat 1 2] by blast
  have "GetSubresourceState 0 t2 = Inr 1" "GetSubresourceState 1 t2 = Inr 1"
    "GetSubresourceState 3 t2 = Inr 1" "GetSubresourceState 2 t2 = Inr 2"
    using r(4,5) f by simp_all
  then show ?thesis using h f r(1,2,3) by blast
qed

text \<open>
  C1 as stated (every \<open>s0\<close> is read back) fails for a value that does not fit the field.
  For an unsigned 32-bit \<open>StateType\<close>, \<open>Initialize(2, 0x80000005, true)\<close> and
  \<open>SetSubresourceState(0, 1)\<close> on the constructed tracker leave 5 at index 1.
\<close>

theorem C1_promotion_counterexample:
  "invoke_all field31_uint32 False 0
      [Call_Initialize of_nat 2 0x80000005 True, Call_SetSubresourceState 0 1]
      (GPUResourceState_ctor field31_uint32 0)
     = Inr \<lparr>resourceState = 5, allSubresourcesSame = False, subresourceState = [1, 5]\<rparr>
   \<and> GetSubresourceState 1
        \<lparr>resourceState = 5 :: 32 word, allSubresourcesSame = False, subresourceState = [1, 5]\<rparr>
     = Inr 5
   \<and> (5 :: 32 word) \<noteq> 0x80000005"
proof -
  have f: "field31_uint32 0x80000005 = 5"
    by (simp add: field31_uint32_def)
  have r: "Resize 2 of_nat ([] :: 32 word list) = [0, 1]"
    by (simp add: Resize_def numeral_2_eq_2)
  have l: "replicate 2 (5 :: 32 word) = [5, 5]"
    by (simp add: numeral_2_eq_2)
  have 1: "Initialize field31_uint32 False 0 of_nat 2 0x80000005 True
        (GPUResourceState_ctor field31_uint32 0)
      = Inr \<lparr>resourceState = 5, allSubresourcesSame = True, subresourceState = [0, 1]\<rparr>"
    by (simp add: GPUResourceState_ctor_def Initialize_def Let_def f r)
  have 2: "SetSubresourceState field31_uint32 False 0 0 1
        \<lparr>resourceState = 5, allSubresourcesSame = True, subresourceState = [0, 1]\<rparr>
      = Inr \<lparr>resourceState = 5, allSubresourcesSame = False, subresourceState = [1, 5]\<rparr>"
    by (simp add: SetSubresourceState_def Array_put_def fill_loop_0 Let_def l)
  have 3: "GetSubresourceState 1
        \<lparr>resourceState = 5 :: 32 word, allSubresourcesSame = False, subresourceState = [1, 5]\<rparr>
      = Inr 5"
    by (simp add: GetSubresourceState_def)
  have 4: "(5 :: 32 word) \<noteq> 0x80000005"
    by simp
  show ?thesis using 1 2 3 4 by simp
qed

subsection \<open>C2: what CheckResourceState checks\<close>

text \<open>
  C2, as the code has it. For every state value \<open>s\<close> and every tracker (reachable or not):
  in per-subresource mode, \<open>CheckResourceState(s)\<close> is true if and only if
  \<open>GetSubresourceState(i)\<close> returns \<open>s\<close> for every index \<open>i\<close> in \<open>[0, allocatedCount)\<close>; in
  Uniform mode it is true if and only if \<open>GetSubresourceState(i)\<close> returns \<open>s\<close> for every
  index \<open>i\<close> whatsoever, regardless of the allocated count. The range \<open>[0, allocatedCount)\<close>
  serves in both modes as soon as the allocated count is positive.
\<close>

theorem C2_check_iff_all_subresources:
  "(CheckResourceState s this \<longleftrightarrow>
      (if AreAllSubresourcesSame this
       then (\<forall>i. GetSubresourceState i this = Inr s)
       else (\<forall>i. int i < GetSubresourcesCount this \<longrightarrow> GetSubresourceState i this = Inr s)))
   \<and> (0 < GetSubresourcesCount this \<longrightarrow>
        (CheckResourceState s this \<longleftrightarrow>
           (\<forall>i. int i < GetSubresourcesCount this \<longrightarrow> GetSubresourceState i this = Inr s)))"
proof -
  have a: "CheckResourceState s this \<longleftrightarrow>
      (if AreAllSubresourcesSame this
       then (\<forall>i. GetSubresourceState i this = Inr s)
       else (\<forall>i. int i < GetSubresourcesCount this \<longrightarrow> GetSubresourceState i this = Inr s))"
    by (simp add: CheckResourceState_def AreAllSubresourcesSame_def GetSubresourceState_def
          GetSubresourcesCount_def check_loop_0 eq_commute [of s])
  have b: "CheckResourceState s this \<longleftrightarrow>
           (\<forall>i. int i < GetSubresourcesCount this \<longrightarrow> GetSubresourceState i this = Inr s)"
    if "0 < GetSubresourcesCount this"
  proof (cases "AreAllSubresourcesSame this")
    case True
    have "(\<forall>i. int i < GetSubresourcesCount this \<longrightarrow> GetSubresourceState i this = Inr s)
        \<longleftrightarrow> resourceState this = s"
      using True that
      by (auto simp add: AreAllSubresourcesSame_def GetSubresourceState_def
            GetSubresourcesCount_def)
    then show ?thesis
      using True by (auto simp add: CheckResourceState_def AreAllSubresourcesSame_def)
  next
    case False
    then show ?thesis using a by simp
  qed
  show ?thesis using a b by blast
qed

theorem C2_check_iff_all_subresources_witness:
  "\<not> AreAllSubresourcesSame
       \<lparr>resourceState = (1::nat), allSubresourcesSame = False, subresourceState = [1, 1, 2, 1]\<rparr>
   \<and> int 2 < GetSubresourcesCount
       \<lparr>resourceState = (1::nat), allSubresourcesSame = False, subresourceState = [1, 1, 2, 1]\<rparr>
   \<and> GetSubresourceState 2
       \<lparr>resourceState = (1::nat), allSubresourcesSame = False, subresourceState = [1, 1, 2, 1]\<rparr>
       = Inr 2
   \<and> \<not> CheckResourceState 1
       \<lparr>resourceState = (1::nat), allSubresourcesSame = False, subresourceState = [1, 1, 2, 1]\<rparr>
   \<and> CheckResourceState 2
       \<lparr>resourceState = (2::nat), allSubresourcesSame = True, subresourceState = [1, 1, 2, 1]\<rparr>"
proof -
  let ?t = "\<lparr>resourceState = (1::nat), allSubresourcesSame = False,
              subresourceState = [1, 1, 2, 1]\<rparr>"
  let ?u = "\<lparr>resourceState = (2::nat), allSubresourcesSame = True,
              subresourceState = [1, 1, 2, 1]\<rparr>"
  have a: "\<not> AreAllSubresourcesSame ?t" "int 2 < GetSubresourcesCount ?t"
    "GetSubresourceState 2 ?t = Inr 2"
    by (simp_all add: AreAllSubresourcesSame_def GetSubresourcesCount_def
          GetSubresourceState_def)
  have "\<not> (\<forall>i. int i < GetSubresourcesCount ?t \<longrightarrow> GetSubresourceState i ?t = Inr 1)"
  proof
    assume "\<forall>i. int i < GetSubresourcesCount ?t \<longrightarrow> GetSubresourceState i ?t = Inr 1"
    then have "GetSubresourceState 2 ?t = Inr 1" using a(2) by blast
    then show False using a(3) by simp
  qed
  then have b: "\<not> CheckResourceState 1 ?t"
    using C2_check_iff_all_subresources [of 1 ?t] a(1) by simp
  have "AreAllSubresourcesSame ?u" "\<forall>i. GetSubresourceState i ?u = Inr 2"
    by (simp_all add: AreAllSubresourcesSame_def GetSubresourceState_def)
  then have c: "CheckResourceState 2 ?u"
    using C2_check_iff_all_subresources [of 2 ?u] by simp
  show ?thesis using a b c by blast
qed

text \<open>
  C2 as stated (the range \<open>[0, allocatedCount)\<close> in every mode) fails on a Uniform tracker
  without an array: after \<open>Initialize(3, 5, false)\<close> on the constructed tracker the count
  is 0, so no index lies in the range, and \<open>CheckResourceState(2)\<close> is false.
\<close>

theorem C2_stated_range_counterexample:
  "Initialize id False (0::nat) id 3 5 False (GPUResourceState_ctor id 0)
     = Inr \<lparr>resourceState = 5, allSubresourcesSame = True, subresourceState = []\<rparr>
   \<and> AreAllSubresourcesSame
       \<lparr>resourceState = (5::nat), allSubresourcesSame = True, subresourceState = []\<rparr>
   \<and> GetSubresourcesCount
       \<lparr>resourceState = (5::nat), allSubresourcesSame = True, subresourceState = []\<rparr> = 0
   \<and> \<not> CheckResourceState 2
       \<lparr>resourceState = (5::nat), allSubresourcesSame = True, subresourceState = []\<rparr>
   \<and> \<not> (CheckResourceState 2
          \<lparr>resourceState = (5::nat), allSubresourcesSame = True, subresourceState = []\<rparr>
        \<longleftrightarrow> (\<forall>i. int i < GetSubresourcesCount
                 \<lparr>resourceState = (5::nat), allSubresourcesSame = True, subresourceState = []\<rparr>
               \<longrightarrow> GetSubresourceState i
                 \<lparr>resourceState = (5::nat), allSubresourcesSame = True, subresourceState = []\<rparr>
                 = Inr 2))"
  by (simp add: Initialize_def GPUResourceState_ctor_def AreAllSubresourcesSame_def
        GetSubresourcesCount_def CheckResourceState_def)

subsection \<open>C3: Release\<close>

text \<open>
  What \<open>Release()\<close> does, for every tracker: \<open>_resourceState\<close> is assigned \<open>InvalidState\<close>,
  the array becomes empty, and the member \<open>_allSubresourcesSame\<close> is not written; a second
  \<open>Release()\<close> changes nothing.
\<close>

lemma Release_effect:
  "resourceState (Release fld invalid this) = fld invalid
   \<and> subresourceState (Release fld invalid this) = []
   \<and> allSubresourcesSame (Release fld invalid this) = allSubresourcesSame this
   \<and> Release fld invalid (Release fld invalid this) = Release fld invalid this"
  by (simp add: Release_def)

text \<open>
  C3 says that after \<open>Release()\<close> the mode is Uniform, so that \<open>AreAllSubresourcesSame()\<close>
  returns true. The code does not do that for a tracker in per-subresource mode:
  \<open>Initialize(2, 1, true)\<close> and \<open>SetSubresourceState(0, 2)\<close> on the constructed tracker give
  such a tracker, and after its \<open>Release()\<close> the flag is still clear, although the array
  that it selects is gone.
\<close>

theorem C3_release_leaves_mode:
  "Initialize id False (0::nat) id 2 1 True (GPUResourceState_ctor id 0)
     = Inr \<lparr>resourceState = 1, allSubresourcesSame = True, subresourceState = [0, 1]\<rparr>
   \<and> SetSubresourceState id False (0::nat) 0 2
        \<lparr>resourceState = 1, allSubresourcesSame = True, subresourceState = [0, 1]\<rparr>
     = Inr \<lparr>resourceState = 1, allSubresourcesSame = False, subresourceState = [2, 1]\<rparr>
   \<and> Release id (0::nat)
        \<lparr>resourceState = 1, allSubresourcesSame = False, subresourceState = [2, 1]\<rparr>
     = \<lparr>resourceState = 0, allSubresourcesSame = False, subresourceState = []\<rparr>
   \<and> AreAllSubresourcesSame
        \<lparr>resourceState = (0::nat), allSubresourcesSame = False, subresourceState = []\<rparr>
     = False
   \<and> AreAllSubresourcesSame (GPUResourceState_ctor id (0::nat)) = True"
  by (simp add: GPUResourceState_ctor_def Initialize_def SetSubresourceState_def Resize_def
        Array_put_def fill_loop_0 AreAllSubresourcesSame_def Release_def Let_def
        numeral_2_eq_2)

subsection \<open>C4: no automatic demotion\<close>




subsection \<open>C5: degenerate collapse\<close>

text \<open>
  C5, as the code has it. Degenerate collapse. On a tracker whose array has at most one
  entry, and for the index \<open>-1\<close> on any tracker, \<open>SetSubresourceState(k, s1)\<close> returns the
  very tracker that \<open>SetResourceState(s1)\<close> gives: Uniform mode, with \<open>_resourceState\<close>
  holding what the 31-bit field keeps of \<open>s1\<close>, which is \<open>s1\<close> itself whenever \<open>s1\<close> fits
  the field. A tracker that \<open>Initialize(1, s0, true)\<close> or \<open>Initialize(n, s0, false)\<close>
  returns is such a tracker: it has no array.
\<close>

theorem C5_degenerate_collapse:
  "(length (subresourceState this) \<le> 1 \<or> k = - 1 \<longrightarrow>
      SetSubresourceState fld dbg invalid k s1 this
        = Inr (SetResourceState fld dbg invalid s1 this)
      \<and> AreAllSubresourcesSame (SetResourceState fld dbg invalid s1 this)
      \<and> resourceState (SetResourceState fld dbg invalid s1 this) = fld s1
      \<and> (fld s1 = s1 \<longrightarrow> resourceState (SetResourceState fld dbg invalid s1 this) = s1))
   \<and> (Initialize fld dbg invalid fresh n s0 per t0 = Inr this \<and> (n = 1 \<or> \<not> per) \<longrightarrow>
        GetSubresourcesCount this = 0)"
  by (auto simp add: SetSubresourceState_def SetResourceState_def AreAllSubresourcesSame_def
        Initialize_def GetSubresourcesCount_def Let_def SetAll_def split: if_splits)

theorem C5_degenerate_collapse_witness:
  "Initialize field31_uint32 False 0 of_nat 1 5 True (GPUResourceState_ctor field31_uint32 0)
     = Inr \<lparr>resourceState = 5, allSubresourcesSame = True, subresourceState = []\<rparr>
   \<and> GetSubresourcesCount
       \<lparr>resourceState = 5 :: 32 word, allSubresourcesSame = True, subresourceState = []\<rparr> = 0
   \<and> length (subresourceState
       \<lparr>resourceState = 5 :: 32 word, allSubresourcesSame = True, subresourceState = []\<rparr>) \<le> 1
   \<and> field31_uint32 7 = 7
   \<and> SetSubresourceState field31_uint32 False 0 0 7
       \<lparr>resourceState = 5, allSubresourcesSame = True, subresourceState = []\<rparr>
      = Inr \<lparr>resourceState = 7, allSubresourcesSame = True, subresourceState = []\<rparr>
   \<and> SetResourceState field31_uint32 False 0 7
       \<lparr>resourceState = 5, allSubresourcesSame = True, subresourceState = []\<rparr>
      = \<lparr>resourceState = 7, allSubresourcesSame = True, subresourceState = []\<rparr>"
proof -
  let ?t = "\<lparr>resourceState = 5 :: 32 word, allSubresourcesSame = True, subresourceState = []\<rparr>"
  have f: "field31_uint32 5 = 5" "field31_uint32 7 = 7"
    by (simp_all add: field31_uint32_def)
  have i: "Initialize field31_uint32 False 0 of_nat 1 5 True
      (GPUResourceState_ctor field31_uint32 0) = Inr ?t"
    by (simp add: Initialize_def GPUResourceState_ctor_def f)
  have l: "length (subresourceState ?t) \<le> 1" by simp
  have s: "SetResourceState field31_uint32 False 0 7 ?t
      = \<lparr>resourceState = 7, allSubresourcesSame = True, subresourceState = []\<rparr>"
    by (simp add: SetResourceState_def f)
  from C5_degenerate_collapse [of ?t 0 field31_uint32 False 0 7 of_nat 1 5 True
      "GPUResourceState_ctor field31_uint32 0"]
  have "SetSubresourceState field31_uint32 False 0 0 7 ?t
      = Inr (SetResourceState field31_uint32 False 0 7 ?t)"
    and "GetSubresourcesCount ?t = 0"
    using i l by simp_all
  then show ?thesis using i l s f(2) by simp
qed

text \<open>
  C5 as stated (\<open>uniformState = s1\<close> for every \<open>s1\<close>) fails for a value that does not fit the
  field. For an unsigned 32-bit \<open>StateType\<close>, after \<open>Initialize(1, 1, true)\<close> on the
  constructed tracker, \<open>SetSubresourceState(0, 0x80000005)\<close> leaves 5 in \<open>_resourceState\<close>.
\<close>

theorem C5_uniform_state_counterexample:
  "Initialize field31_uint32 False 0 of_nat 1 1 True (GPUResourceState_ctor field31_uint32 0)
     = Inr \<lparr>resourceState = 1, allSubresourcesSame = True, subresourceState = []\<rparr>
   \<and> SetSubresourceState field31_uint32 False 0 0 0x80000005
        \<lparr>resourceState = 1, allSubresourcesSame = True, subresourceState = []\<rparr>
     = Inr \<lparr>resourceState = 5, allSubresourcesSame = True, subresourceState = []\<rparr>
   \<and> GetSubresourceState 0
        \<lparr>resourceState = 5 :: 32 word, allSubresourcesSame = True, subresourceState = []\<rparr>
     = Inr 5
   \<and> (5 :: 32 word) \<noteq> 0x80000005"
proof -
  have f: "field31_uint32 0x80000005 = 5" "field31_uint32 1 = 1"
    by (simp_all add: field31_uint32_def)
  have 1: "Initialize field31_uint32 False 0 of_nat 1 1 True
        (GPUResourceState_ctor field31_uint32 0)
      = Inr \<lparr>resourceState = 1, allSubresourcesSame = True, subresourceState = []\<rparr>"
    by (simp add: Initialize_def GPUResourceState_ctor_def f)
  have 2: "SetSubresourceState field31_uint32 False 0 0 0x80000005
        \<lparr>resourceState = 1, allSubresourcesSame = True, subresourceState = []\<rparr>
      = Inr \<lparr>resourceState = 5, allSubresourcesSame = True, subresourceState = []\<rparr>"
    by (simp add: SetSubresourceState_def SetResourceState_def f)
  have 3: "GetSubresourceState 0
        \<lparr>resourceState = 5 :: 32 word, allSubresourcesSame = True, subresourceState = []\<rparr>
      = Inr 5"
    by (simp add: GetSubresourceState_def)
  have 4: "(5 :: 32 word) \<noteq> 0x80000005"
    by simp
  show ?thesis using 1 2 3 4 by simp
qed

subsection \<open>C6: release and reinitialise\<close>

text \<open>
  C6. Release/reinit equivalence. For every tracker and all parameters \<open>(n, s0, tracking)\<close>
  with \<open>n > 0\<close>: \<open>Release()\<close> followed by \<open>Initialize(n, s0, tracking)\<close> returns, as does
  \<open>Initialize(n, s0, tracking)\<close> on a freshly constructed tracker, and no observer can tell
  the two results apart: after every sequence of further calls, the same on both sides
  (the fresh storage of an allocation may differ), every query (\<open>IsInitializated\<close>,
  \<open>AreAllSubresourcesSame\<close>, \<open>GetSubresourcesCount\<close>, \<open>CheckResourceState\<close>,
  \<open>GetSubresourceState\<close>) gives the same answer on both, and a failed assertion on one side
  is the same failed assertion on the other.
\<close>

theorem C6_release_reinit_equivalence:
  assumes "0 < n" and "list_all2 same_call cs ds"
  shows "\<exists>a b. Initialize fld dbg invalid f n s0 per (Release fld invalid this) = Inr a
           \<and> Initialize fld dbg invalid g n s0 per (GPUResourceState_ctor fld invalid) = Inr b
           \<and> observe fld dbg invalid cs q a = observe fld dbg invalid ds q b"
proof -
  obtain a b where ab:
      "Initialize fld dbg invalid f n s0 per (Release fld invalid this) = Inr a"
      "Initialize fld dbg invalid g n s0 per (GPUResourceState_ctor fld invalid) = Inr b"
      "alike a b"
    using release_reinit_alike [OF assms(1), of fld dbg invalid f s0 per this g] by blast
  have "observe fld dbg invalid cs q a = observe fld dbg invalid ds q b"
    using alike_observe [OF assms(2) ab(3)] .
  then show ?thesis using ab(1,2) by blast
qed

theorem C6_release_reinit_equivalence_witness:
  "(0::nat) < 2
   \<and> list_all2 same_call [Call_SetSubresourceState 1 (3::nat)] [Call_SetSubresourceState 1 3]
   \<and> (\<exists>a b.
        Initialize id False 0 id 2 1 True
          (Release id 0 \<lparr>resourceState = 1, allSubresourcesSame = False,
             subresourceState = [2, 1]\<rparr>) = Inr a
        \<and> Initialize id False 0 Suc 2 1 True (GPUResourceState_ctor id 0) = Inr b
        \<and> observe id False 0 [Call_SetSubresourceState 1 3] (Q_GetSubresourceState 0) a
          = observe id False 0 [Call_SetSubresourceState 1 3] (Q_GetSubresourceState 0) b)"
proof -
  have h: "(0::nat) < 2"
    "list_all2 same_call [Call_SetSubresourceState 1 (3::nat)] [Call_SetSubresourceState 1 3]"
    by simp_all
  show ?thesis
    using h C6_release_reinit_equivalence [OF h, of id False 0 id 1 True
        "\<lparr>resourceState = 1, allSubresourcesSame = False, subresourceState = [2, 1]\<rparr>" Suc
        "Q_GetSubresourceState 0"]
    by blast
qed

subsection \<open>C7: GetSubresourceState in Uniform mode\<close>

text \<open>
  C7. In Uniform mode (\<open>_allSubresourcesSame\<close> set), \<open>GetSubresourceState(index)\<close> returns
  \<open>_resourceState\<close> for every index, also one outside the allocated array: the range
  assertion is reached only when the per-subresource array is the active representation.
\<close>

theorem C7_uniform_get_any_index:
  "AreAllSubresourcesSame this \<Longrightarrow> GetSubresourceState index this = Inr (resourceState this)"
  by (simp add: GetSubresourceState_def AreAllSubresourcesSame_def)

theorem C7_uniform_get_any_index_witness:
  "AreAllSubresourcesSame \<lparr>resourceState = (5::nat), allSubresourcesSame = True,
       subresourceState = [1, 2]\<rparr>
   \<and> GetSubresourceState 7 \<lparr>resourceState = (5::nat), allSubresourcesSame = True,
       subresourceState = [1, 2]\<rparr> = Inr 5"
  using C7_uniform_get_any_index
    [of "\<lparr>resourceState = (5::nat), allSubresourcesSame = True, subresourceState = [1, 2]\<rparr>" 7]
  by (simp add: AreAllSubresourcesSame_def)

subsection \<open>C8: SetResourceState is idempotent\<close>

text \<open>
  C8. Idempotence. For every tracker and state \<open>s\<close>, \<open>SetResourceState(s)\<close> called twice in
  a row leaves the same tracker as called once: the same members, hence the same answer
  to every query.
\<close>

theorem C8_set_resource_state_idempotent:
  "SetResourceState fld dbg invalid s (SetResourceState fld dbg invalid s this)
     = SetResourceState fld dbg invalid s this
   \<and> ask invalid q (SetResourceState fld dbg invalid s (SetResourceState fld dbg invalid s this))
     = ask invalid q (SetResourceState fld dbg invalid s this)"
  by (simp add: SetResourceState_def Let_def fill_loop_0)

theorem C8_set_resource_state_idempotent_witness:
  "SetResourceState field31_uint32 True 0 0x80000005
     (SetResourceState field31_uint32 True 0 0x80000005
        \<lparr>resourceState = 1, allSubresourcesSame = False, subresourceState = [2, 1]\<rparr>)
   = \<lparr>resourceState = 5, allSubresourcesSame = True, subresourceState = [0, 0]\<rparr>
   \<and> SetResourceState field31_uint32 True 0 0x80000005
        \<lparr>resourceState = 1, allSubresourcesSame = False, subresourceState = [2, 1]\<rparr>
   = \<lparr>resourceState = 5, allSubresourcesSame = True, subresourceState = [0, 0]\<rparr>"
proof -
  let ?t = "\<lparr>resourceState = 1 :: 32 word, allSubresourcesSame = False,
              subresourceState = [2, 1]\<rparr>"
  have f: "field31_uint32 0x80000005 = 5"
    by (simp add: field31_uint32_def)
  have s: "SetResourceState field31_uint32 True 0 0x80000005 ?t
      = \<lparr>resourceState = 5, allSubresourcesSame = True, subresourceState = [0, 0]\<rparr>"
    by (simp add: SetResourceState_def fill_loop_0 f)
  show ?thesis
    using s C8_set_resource_state_idempotent
      [of field31_uint32 True 0 "0x80000005" ?t Q_AreAllSubresourcesSame]
    by simp
qed

subsection \<open>C9: the allocated count is framed\<close>

text \<open>
  C9. Frame property on the allocation size. \<open>SetResourceState\<close> and every call of
  \<open>SetSubresourceState\<close> that returns, with any index, leave \<open>GetSubresourcesCount()\<close> as it
  was (the queries are \<open>const\<close>: they return no tracker); \<open>Release\<close> sets it to 0.
\<close>

theorem C9_count_frame:
  "GetSubresourcesCount (SetResourceState fld dbg invalid s this) = GetSubresourcesCount this
   \<and> (\<forall>t'. SetSubresourceState fld dbg invalid k s this = Inr t'
         \<longrightarrow> GetSubresourcesCount t' = GetSubresourcesCount this)
   \<and> GetSubresourcesCount (Release fld invalid this) = 0"
  by (auto simp add: GetSubresourcesCount_def SetResourceState_def SetSubresourceState_def
        Release_def Array_put_def Let_def split: if_splits)

theorem C9_count_frame_witness:
  "GetSubresourcesCount (SetResourceState id False (0::nat) 5
      \<lparr>resourceState = 1, allSubresourcesSame = True, subresourceState = [0, 0]\<rparr>) = 2
   \<and> SetSubresourceState id False (0::nat) 1 5
      \<lparr>resourceState = 1, allSubresourcesSame = True, subresourceState = [0, 0]\<rparr>
     = Inr \<lparr>resourceState = 1, allSubresourcesSame = False, subresourceState = [1, 5]\<rparr>
   \<and> GetSubresourcesCount
      \<lparr>resourceState = (1::nat), allSubresourcesSame = False, subresourceState = [1, 5]\<rparr> = 2
   \<and> GetSubresourcesCount (Release id (0::nat)
      \<lparr>resourceState = 1, allSubresourcesSame = True, subresourceState = [0, 0]\<rparr>) = 0"
proof -
  let ?t = "\<lparr>resourceState = (1::nat), allSubresourcesSame = True, subresourceState = [0, 0]\<rparr>"
  have c: "GetSubresourcesCount ?t = 2" by (simp add: GetSubresourcesCount_def)
  have e: "SetSubresourceState id False (0::nat) 1 5 ?t
     = Inr \<lparr>resourceState = 1, allSubresourcesSame = False, subresourceState = [1, 5]\<rparr>"
    by (simp add: SetSubresourceState_def Array_put_def fill_loop_0 Let_def numeral_2_eq_2)
  show ?thesis
    using c e C9_count_frame [of id False 0 5 ?t 1] by simp
qed

subsection \<open>C10: CheckResourceState on a tracker released in per-subresource mode\<close>

text \<open>
  C10. For every tracker that is in per-subresource mode when \<open>Release()\<close> is called,
  \<open>CheckResourceState(s)\<close> on the released tracker is true for every state \<open>s\<close>: the mode
  flag still selects the array, which is now empty, and the loop over it finds no entry
  that differs.
\<close>

theorem C10_released_check_vacuous:
  "\<not> AreAllSubresourcesSame this \<Longrightarrow> CheckResourceState s (Release fld invalid this)"
  by (simp add: AreAllSubresourcesSame_def CheckResourceState_def Release_def check_loop_0)

theorem C10_released_check_vacuous_witness:
  "\<not> AreAllSubresourcesSame \<lparr>resourceState = (1::nat), allSubresourcesSame = False,
        subresourceState = [2, 1]\<rparr>
   \<and> CheckResourceState 7 (Release id 0 \<lparr>resourceState = (1::nat), allSubresourcesSame = False,
        subresourceState = [2, 1]\<rparr>)"
  using C10_released_check_vacuous
    [of "\<lparr>resourceState = (1::nat), allSubresourcesSame = False, subresourceState = [2, 1]\<rparr>"
      7 id 0]
  by (simp add: AreAllSubresourcesSame_def)

end
